theory Spec2Isabelle
  imports Main
begin

section \<open>The command-line front end of OpenJSCAD (src/js/future-cli.js)\<close>

text \<open>
  The file parses the argument vector (\<open>parseArgs\<close>, lines 105-169) and then fixes the
  output file name and format (\<open>determineOutputNameAndFormat\<close>, lines 171-189). Both are
  embedded here as functions on values. A token is a \<open>string\<close>; its characters are the
  code units below 256, which is where every character named by the regular expressions
  of the source lives.
\<close>

subsection \<open>Values, failures and the environment\<close>

text \<open>
  A local variable of the source holds \<open>undefined\<close> (declared by \<open>let\<close> and never
  assigned, or read past the end of \<open>args\<close>), \<open>null\<close> (only ever compared against, line
  157) or a string.
\<close>

datatype jsval = Undefined | Null | Str string

text \<open>The truthiness test behind \<open>!outputFormat\<close>, \<open>!outputFile\<close> and \<open>outputFile && ...\<close>.\<close>

fun truthy :: "jsval \<Rightarrow> bool" where
  "truthy (Str s) = (s \<noteq> [])"
| "truthy Undefined = False"
| "truthy Null = False"

text \<open>
  An exception nobody catches: \<open>fs.statSync\<close> throwing for a path it cannot stat, a method
  call on \<open>undefined\<close>, a free identifier that is not bound.
\<close>

datatype exn = StatError string | TypeError | ReferenceError

text \<open>
  The ways the two functions stop the process. Every constructor but the last is a
  \<open>process.exit(1)\<close> of the source, named after what it prints first:
  \<open>Usage\<close> lines 113-117, \<open>CannotOpen\<close> lines 144-145, \<open>InvalidArgument\<close> lines 151-153,
  \<open>NoInput\<close> line 157 (prints nothing), \<open>InvalidOutputFile\<close> lines 175-176,
  \<open>InvalidOutputFormat\<close> lines 185-186.
\<close>

datatype failure =
    Usage
  | CannotOpen string
  | InvalidArgument string
  | NoInput
  | InvalidOutputFile string
  | InvalidOutputFormat string
  | Thrown exn

text \<open>What reaches the console on the way: \<open>OpenJsCad.env()\<close> and \<open>console.log\<close>.\<close>

datatype event = EnvReport | ConsoleLog string

text \<open>
  What the functions read from outside the file. \<open>statSync p\<close> is \<open>None\<close> when
  \<open>fs.statSync(p)\<close> throws (no such path) and otherwise the answer of \<open>isFile()\<close>.
  The identifier \<open>openscad\<close> of line 149 is declared nowhere in the file (line 52 binds
  the library to \<open>modelingHelpers\<close>): \<open>openscad_version\<close> is \<open>None\<close> for the identifier
  unbound, as the file leaves it, and otherwise what \<open>openscad.version()\<close> would return
  were a global of that name supplied from outside.
\<close>

record env =
  statSync :: "string \<Rightarrow> bool option"
  openscad_version :: "string option"

text \<open>The locals of \<open>parseArgs\<close> (lines 120-124), with the console output so far.\<close>

record parsed =
  inputFile :: jsval
  inputFormat :: jsval
  outputFile :: jsval
  outputFormat :: jsval
  gMainParam :: "string \<rightharpoonup> jsval"
  console :: "event list"

definition init :: parsed where
  "init = \<lparr>inputFile = Undefined, inputFormat = Undefined, outputFile = Undefined,
           outputFormat = Undefined, gMainParam = Map.empty, console = []\<rparr>"

subsection \<open>Character classes\<close>

text \<open>\<open>\s\<close>: tab, line feed, vertical tab, form feed, carriage return, space, no-break space.\<close>

definition ws :: "char \<Rightarrow> bool" where
  "ws c = (c \<in> set [CHR 0x09, CHR 0x0A, CHR 0x0B, CHR 0x0C, CHR 0x0D, CHR 0x20, CHR 0xA0])"

text \<open>What \<open>.\<close> does not match.\<close>

definition lineTerminator :: "char \<Rightarrow> bool" where
  "lineTerminator c = (c \<in> set [CHR 0x0A, CHR 0x0D])"

text \<open>\<open>\w\<close>.\<close>

definition wordChar :: "char \<Rightarrow> bool" where
  "wordChar c =
     (c \<in> set ''abcdefghijklmnopqrstuvwxyzABCDEFGHIJKLMNOPQRSTUVWXYZ0123456789_'')"

text \<open>The case folding of the \<open>i\<close> flag: only the letters A-Z have another case below 256
  that is an ASCII letter.\<close>

definition toLower :: "char \<Rightarrow> char" where
  "toLower c =
     (case map_of (zip ''ABCDEFGHIJKLMNOPQRSTUVWXYZ'' ''abcdefghijklmnopqrstuvwxyz'') c of
        Some l \<Rightarrow> l
      | None \<Rightarrow> c)"

subsection \<open>The regular expressions\<close>

text \<open>The part of a string after its last dot (the whole string if it has none), and the
  part up to and including that dot (empty if it has none).\<close>

definition afterLastDot :: "string \<Rightarrow> string" where
  "afterLastDot s = rev (takeWhile (\<lambda>c. c \<noteq> CHR ''.'') (rev s))"

definition uptoLastDot :: "string \<Rightarrow> string" where
  "uptoLastDot s = rev (dropWhile (\<lambda>c. c \<noteq> CHR ''.'') (rev s))"

text \<open>Line 129, \<open>/^-o(\S.+)/\<close>: \<open>-o\<close>, one character that is not white space, and at least
  one more character that \<open>.\<close> matches.\<close>

fun m_o_concat :: "string \<Rightarrow> bool" where
  "m_o_concat (c1 # c2 # c3 # c4 # r) =
     (c1 = CHR ''-'' \<and> c2 = CHR ''o'' \<and> \<not> ws c3 \<and> \<not> lineTerminator c4)"
| "m_o_concat s = False"

text \<open>Line 131, \<open>replace(/^\-o(\S+)$/, '$1')\<close>: the prefix goes only when nothing after
  it is white space.\<close>

definition strip_o :: "string \<Rightarrow> string" where
  "strip_o s =
     (if take 2 s = ''-o'' \<and> drop 2 s \<noteq> [] \<and> list_all (\<lambda>c. \<not> ws c) (drop 2 s)
      then drop 2 s else s)"

text \<open>Line 134, \<open>/^--(\w+)=(.*)/\<close>, giving \<open>RegExp.$1\<close> and \<open>RegExp.$2\<close>.\<close>

definition m_param_eq :: "string \<Rightarrow> (string \<times> string) option" where
  "m_param_eq s =
     (let r = drop 2 s; n = takeWhile wordChar r; t = dropWhile wordChar r in
      if take 2 s = ''--'' \<and> n \<noteq> [] \<and> take 1 t = ''=''
      then Some (n, takeWhile (\<lambda>c. \<not> lineTerminator c) (drop 1 t))
      else None)"

text \<open>Lines 136 and 138, \<open>/^--(\w+)$/\<close>, giving \<open>RegExp.$1\<close>.\<close>

definition m_param :: "string \<Rightarrow> string option" where
  "m_param s =
     (if take 2 s = ''--'' \<and> drop 2 s \<noteq> [] \<and> list_all wordChar (drop 2 s)
      then Some (drop 2 s) else None)"

definition inputExts :: "string list" where
  "inputExts = [''jscad'', ''js'', ''scad'', ''stl'', ''amf'', ''obj'', ''gcode'', ''svg'', ''json'']"

text \<open>Line 140, \<open>/.+\.(jscad|js|scad|stl|amf|obj|gcode|svg|json)$/i\<close>, giving \<open>RegExp.$1\<close>:
  the string ends in a dot and one of the extensions in any case, and the character before
  that dot is one that \<open>.\<close> matches. The group is the text as it stands in the string.\<close>

definition m_input :: "string \<Rightarrow> string option" where
  "m_input s =
     (case dropWhile (\<lambda>c. c \<noteq> CHR ''.'') (rev s) of
        d # c # r \<Rightarrow>
          if \<not> lineTerminator c \<and> map toLower (afterLastDot s) \<in> set inputExts
          then Some (afterLastDot s) else None
      | _ \<Rightarrow> None)"

definition outputExts :: "string list" where
  "outputExts = [''jscad'', ''js'', ''stl'', ''amf'', ''dxf'', ''svg'']"

text \<open>Line 172, \<open>/\.(jscad|js|stl|amf|dxf|svg)$/\<close>, giving \<open>RegExp.$1\<close>. No \<open>i\<close> flag.\<close>

definition m_output :: "string \<Rightarrow> string option" where
  "m_output s =
     (if uptoLastDot s \<noteq> [] \<and> afterLastDot s \<in> set outputExts
      then Some (afterLastDot s) else None)"

definition formatAlts :: "string list" where
  "formatAlts = [''jscad'', ''js'', ''stl'', ''stla'', ''stlb'', ''amf'', ''dxf'', ''svg'']"

text \<open>Line 177, \<open>/(jscad|js|stl|stla|stlb|amf|dxf|svg)/i\<close>, giving \<open>RegExp.$1\<close>. The
  expression has no anchor: it is searched from the left, and at the first position where
  an alternative fits (in any case) the first such alternative is taken.\<close>

fun m_format :: "string \<Rightarrow> string option" where
  "m_format [] = None"
| "m_format (c # cs) =
     (case find (\<lambda>a. map toLower (take (length a) (c # cs)) = a) formatAlts of
        Some a \<Rightarrow> Some (take (length a) (c # cs))
      | None \<Rightarrow> m_format cs)"

text \<open>Line 180, \<open>replace(/stl[ab]/, 'stl')\<close>: the first \<open>stla\<close> or \<open>stlb\<close> loses its
  last letter.\<close>

fun dropAB :: "string \<Rightarrow> string" where
  "dropAB (a # b # c # d # r) =
     (if a = CHR ''s'' \<and> b = CHR ''t'' \<and> c = CHR ''l'' \<and> (d = CHR ''a'' \<or> d = CHR ''b'')
      then ''stl'' @ r
      else a # dropAB (b # c # d # r))"
| "dropAB s = s"

text \<open>Line 182, \<open>replace(/\.([^\.]+)$/, '.' + ext)\<close>: what follows the last dot is
  replaced, unless there is no dot or nothing follows it.\<close>

definition replaceExt :: "string \<Rightarrow> string \<Rightarrow> string" where
  "replaceExt s ext =
     (if uptoLastDot s \<noteq> [] \<and> afterLastDot s \<noteq> [] then uptoLastDot s @ ext else s)"

subsection \<open>parseArgs\<close>

text \<open>\<open>args[++i]\<close>: the next token and what is left after it, \<open>undefined\<close> past the end.\<close>

fun nextArg :: "string list \<Rightarrow> jsval \<times> string list" where
  "nextArg [] = (Undefined, [])"
| "nextArg (v # r) = (Str v, r)"

text \<open>\<open>gMainParam[name] = value\<close> on an object created by \<open>{}\<close>: an own property, except
  that assigning a string or \<open>undefined\<close> to \<open>__proto__\<close> leaves the object as it is.\<close>

definition setProp :: "(string \<rightharpoonup> jsval) \<Rightarrow> string \<Rightarrow> jsval \<Rightarrow> (string \<rightharpoonup> jsval)" where
  "setProp m k v = (if k = ''__proto__'' then m else m(k \<mapsto> v))"

text \<open>The loop of lines 126-155, on the tokens from \<open>args[i]\<close> on. The branch of line 138
  repeats the test of line 136 and is never taken.\<close>

function loop :: "env \<Rightarrow> string list \<Rightarrow> parsed \<Rightarrow> failure + parsed" where
  "loop e [] st = Inr st"
| "loop e (a # as) st =
     (if a = ''-of'' then
        loop e (snd (nextArg as)) (st\<lparr>outputFormat := fst (nextArg as)\<rparr>)
      else if m_o_concat a then
        loop e as (st\<lparr>outputFile := Str (strip_o a)\<rparr>)
      else if a = ''-o'' then
        loop e (snd (nextArg as)) (st\<lparr>outputFile := fst (nextArg as)\<rparr>)
      else case m_param_eq a of
        Some (n, v) \<Rightarrow> loop e as (st\<lparr>gMainParam := setProp (gMainParam st) n (Str v)\<rparr>)
      | None \<Rightarrow>
     (case m_param a of
        Some n \<Rightarrow>
          loop e (snd (nextArg as))
            (st\<lparr>gMainParam := setProp (gMainParam st) n (fst (nextArg as))\<rparr>)
      | None \<Rightarrow>
     (case m_input a of
        Some x \<Rightarrow>
          (case statSync e a of
             None \<Rightarrow> Inl (Thrown (StatError a))
           | Some isFile \<Rightarrow>
               if \<not> isFile then Inl (CannotOpen a)
               else loop e as (st\<lparr>inputFile := Str a, inputFormat := Str x\<rparr>))
      | None \<Rightarrow>
          if a = ''-v'' then
            (case openscad_version e of
               None \<Rightarrow> Inl (Thrown ReferenceError)
             | Some v \<Rightarrow>
                 loop e as
                   (st\<lparr>console := console st @
                      [EnvReport, ConsoleLog (''OpenSCAD Compatibility ('' @ v @ '')'')]\<rparr>))
          else Inl (InvalidArgument a))))"
  by pat_completeness auto
termination
proof -
  have shorter: "length (snd (nextArg as)) < Suc (length as)" for as
    by (cases as) simp_all
  show ?thesis
    by (relation "measure (\<lambda>(e, as, st). length as)") (auto simp: shorter)
qed

text \<open>Lines 112-169.\<close>

definition parseArgs :: "env \<Rightarrow> string list \<Rightarrow> failure + parsed" where
  "parseArgs e args =
     (if length args < 1 then Inl Usage
      else case loop e args init of
        Inl f \<Rightarrow> Inl f
      | Inr st \<Rightarrow>
          if inputFile st = Null then Inl NoInput
          else if \<not> truthy (outputFormat st) \<and> \<not> truthy (outputFile st)
          then Inr (st\<lparr>outputFormat := Str ''stla''\<rparr>)
          else Inr st)"

subsection \<open>determineOutputNameAndFormat\<close>

text \<open>The characters of a value that is a string.\<close>

fun str :: "jsval \<Rightarrow> string" where
  "str (Str s) = s"
| "str v = []"

text \<open>
  Lines 171-189. The function reads the \<open>inputFile\<close> of the enclosing scope (line 181),
  here the first argument; the object it returns is the pair of \<open>outputFormat\<close> and
  \<open>outputFile\<close>. The tests of lines 172 and 174 differ only in the match of the output
  file name, so they are one test here, with the match inside. The method calls
  \<open>outputFormat.match\<close> (line 177) and \<open>outputFile.replace\<close> (line 182) throw on anything
  that is not a string.
\<close>

definition determineOutputNameAndFormat ::
  "jsval \<Rightarrow> jsval \<Rightarrow> jsval \<Rightarrow> failure + (jsval \<times> jsval)" where
  "determineOutputNameAndFormat inFile outFormat outFile =
     (if \<not> truthy outFormat \<and> truthy outFile then
        (case m_output (str outFile) of
           Some x \<Rightarrow> Inr (Str x, outFile)
         | None \<Rightarrow> Inl (InvalidOutputFile (str outFile)))
      else
        (case outFormat of
           Str fmt \<Rightarrow>
             (case m_format fmt of
                Some ext \<Rightarrow>
                  if \<not> truthy outFile then
                    (case inFile of
                       Str inp \<Rightarrow> Inr (outFormat, Str (replaceExt inp (dropAB ext)))
                     | _ \<Rightarrow> Inl (Thrown TypeError))
                  else Inr (outFormat, outFile)
              | None \<Rightarrow> Inl (InvalidOutputFormat fmt))
         | _ \<Rightarrow> Inl (Thrown TypeError)))"

text \<open>Lines 83-89: the arguments are parsed, then the output is fixed.\<close>

definition cli :: "env \<Rightarrow> string list \<Rightarrow> failure + parsed" where
  "cli e args =
     (case parseArgs e args of
        Inl f \<Rightarrow> Inl f
      | Inr st \<Rightarrow>
          (case determineOutputNameAndFormat (inputFile st) (outputFormat st) (outputFile st) of
             Inl f \<Rightarrow> Inl f
           | Inr (fmt, file) \<Rightarrow> Inr (st\<lparr>outputFormat := fmt, outputFile := file\<rparr>)))"

subsection \<open>Vocabulary of the claims\<close>

text \<open>
  The error taxonomy of the specification (section 7), read off the diagnostics: a usage
  error is the help text, a rejected token or the missing input file; a file-not-found
  error is the refusal of line 144 and the exception of \<open>fs.statSync\<close> for a path that
  does not exist; an invalid-output error is one of the two refusals of
  \<open>determineOutputNameAndFormat\<close>. The other exceptions have no name there.
\<close>

datatype category = UsageError | FileNotFoundError | InvalidOutputError | Uncaught

fun category_of :: "failure \<Rightarrow> category" where
  "category_of Usage = UsageError"
| "category_of (InvalidArgument a) = UsageError"
| "category_of NoInput = UsageError"
| "category_of (CannotOpen p) = FileNotFoundError"
| "category_of (Thrown (StatError p)) = FileNotFoundError"
| "category_of (InvalidOutputFile p) = InvalidOutputError"
| "category_of (InvalidOutputFormat f) = InvalidOutputError"
| "category_of (Thrown TypeError) = Uncaught"
| "category_of (Thrown ReferenceError) = Uncaught"

text \<open>A bare token: none of the tests of lines 127-138 takes it, so that the loop goes on
  to the test of line 140.\<close>

definition bare :: "string \<Rightarrow> bool" where
  "bare a =
     (a \<noteq> ''-of'' \<and> \<not> m_o_concat a \<and> a \<noteq> ''-o'' \<and> m_param_eq a = None \<and> m_param a = None)"

text \<open>An environment for examples: every path is a regular file, and a global \<open>openscad\<close>
  is supplied.\<close>

definition everyFile :: env where
  "everyFile = \<lparr>statSync = (\<lambda>p. Some True), openscad_version = Some ''1.0''\<rparr>"

section \<open>Properties\<close>

subsection \<open>Strings and their last dot\<close>

lemma toLower_dot: "toLower c = CHR ''.'' \<Longrightarrow> c = CHR ''.''"
  by (auto simp: toLower_def split: if_splits)

lemma lower_no_dot: "CHR ''.'' \<notin> set (map toLower x) \<Longrightarrow> CHR ''.'' \<notin> set x"
  by (induction x) (auto simp: toLower_def)

lemma takeWhile_to_dot:
  "CHR ''.'' \<notin> set r \<Longrightarrow> takeWhile (\<lambda>c. c \<noteq> CHR ''.'') (r @ CHR ''.'' # t) = r"
  by (induction r) auto

lemma dropWhile_to_dot:
  "CHR ''.'' \<notin> set r \<Longrightarrow>
   dropWhile (\<lambda>c. c \<noteq> CHR ''.'') (r @ CHR ''.'' # t) = CHR ''.'' # t"
  by (induction r) auto

lemma afterLastDot_ext: "CHR ''.'' \<notin> set x \<Longrightarrow> afterLastDot (b @ CHR ''.'' # x) = x"
  by (simp add: afterLastDot_def takeWhile_to_dot)

lemma uptoLastDot_ext: "CHR ''.'' \<notin> set x \<Longrightarrow> uptoLastDot (b @ CHR ''.'' # x) = b @ ''.''"
  by (simp add: uptoLastDot_def dropWhile_to_dot)

lemma inputExts_no_dot: "map toLower x \<in> set inputExts \<Longrightarrow> CHR ''.'' \<notin> set x"
  by (rule lower_no_dot) (auto simp: inputExts_def)

lemma outputExts_no_dot: "map toLower x \<in> set outputExts \<Longrightarrow> CHR ''.'' \<notin> set x"
  by (rule lower_no_dot) (auto simp: outputExts_def)

text \<open>The test of line 140 takes every name that ends in a dot and an input extension
  in any case, and hands that extension on as it is written.\<close>

lemma m_input_ext:
  assumes "map toLower x \<in> set inputExts" "b \<noteq> []" "\<not> lineTerminator (last b)"
  shows "m_input (b @ ''.'' @ x) = Some x"
proof -
  have nd: "CHR ''.'' \<notin> set x" using assms(1) by (rule inputExts_no_dot)
  obtain b' c where b: "b = b' @ [c]" using assms(2) by (metis append_butlast_last_id)
  have "dropWhile (\<lambda>c. c \<noteq> CHR ''.'') (rev (b @ ''.'' @ x)) = CHR ''.'' # c # rev b'"
    using nd by (simp add: b dropWhile_to_dot)
  moreover have "\<not> lineTerminator c" using assms(3) by (simp add: b)
  ultimately show ?thesis
    using assms(1) nd by (simp add: m_input_def afterLastDot_ext)
qed

subsection \<open>One step of the loop\<close>

lemma loop_bare:
  "bare a \<Longrightarrow> loop e (a # as) st =
     (case m_input a of
        Some x \<Rightarrow>
          (case statSync e a of
             None \<Rightarrow> Inl (Thrown (StatError a))
           | Some isFile \<Rightarrow>
               if \<not> isFile then Inl (CannotOpen a)
               else loop e as (st\<lparr>inputFile := Str a, inputFormat := Str x\<rparr>))
      | None \<Rightarrow>
          if a = ''-v'' then
            (case openscad_version e of
               None \<Rightarrow> Inl (Thrown ReferenceError)
             | Some v \<Rightarrow>
                 loop e as
                   (st\<lparr>console := console st @
                      [EnvReport, ConsoleLog (''OpenSCAD Compatibility ('' @ v @ '')'')]\<rparr>))
          else Inl (InvalidArgument a))"
  by (simp add: bare_def)

declare loop.simps(2) [simp del]

lemma loop_input:
  assumes "bare a" "m_input a = Some x" "statSync e a = Some True"
  shows "loop e (a # as) st = loop e as (st\<lparr>inputFile := Str a, inputFormat := Str x\<rparr>)"
  using assms by (simp add: loop_bare)

lemma param_token:
  assumes "n \<noteq> []" "list_all wordChar n"
  shows "''--'' @ n \<noteq> ''-of''" "\<not> m_o_concat (''--'' @ n)" "''--'' @ n \<noteq> ''-o''"
    "m_param_eq (''--'' @ n) = None" "m_param (''--'' @ n) = Some n"
proof -
  have tw: "takeWhile wordChar n = n" "dropWhile wordChar n = []"
    using assms(2) by (simp_all add: list_all_iff)
  show "''--'' @ n \<noteq> ''-of''" "''--'' @ n \<noteq> ''-o''" by simp_all
  show "\<not> m_o_concat (''--'' @ n)"
    by (cases n rule: m_o_concat.cases) (auto elim: m_o_concat.elims)
  show "m_param_eq (''--'' @ n) = None" by (simp add: m_param_eq_def tw)
  show "m_param (''--'' @ n) = Some n" using assms by (simp add: m_param_def)
qed

subsection \<open>The test for a missing input file\<close>

text \<open>No step of the loop stores \<open>null\<close> in \<open>inputFile\<close>, and none stops the way line 157
  does.\<close>

lemma loop_inputFile_not_Null:
  "loop e as st = Inr st' \<Longrightarrow> inputFile st \<noteq> Null \<Longrightarrow> inputFile st' \<noteq> Null"
proof (induction e as st rule: loop.induct)
  case (1 e st)
  then show ?case by simp
next
  case (2 e a as st)
  then show ?case
    by (auto simp: loop.simps(2) split: if_splits option.splits prod.splits)
qed

lemma loop_not_NoInput: "loop e as st \<noteq> Inl NoInput"
proof (induction e as st rule: loop.induct)
  case (1 e st)
  then show ?case by simp
next
  case (2 e a as st)
  then show ?case
    by (auto simp: loop.simps(2) split: if_splits option.splits prod.splits)
qed

lemma parseArgs_never_NoInput: "parseArgs e args \<noteq> Inl NoInput"
proof -
  have "inputFile st \<noteq> Null" if "loop e args init = Inr st" for st
    using loop_inputFile_not_Null [OF that] by (simp add: init_def)
  then show ?thesis
    by (auto simp: parseArgs_def loop_not_NoInput split: sum.splits if_splits)
qed

subsection \<open>When the output is refused\<close>

text \<open>The test of line 177 passes every string that has one of its alternatives, in any
  case, somewhere inside.\<close>

lemma m_format_here:
  assumes "map toLower t \<in> set formatAlts"
  shows "m_format (t @ q) \<noteq> None"
proof -
  have ne: "t \<noteq> []" using assms by (auto simp: formatAlts_def)
  then obtain c cs where tq: "t @ q = c # cs" by (cases t) auto
  have "map toLower (take (length (map toLower t)) (t @ q)) = map toLower t" by simp
  then have "find (\<lambda>a. map toLower (take (length a) (c # cs)) = a) formatAlts \<noteq> None"
    using assms unfolding find_None_iff tq by blast
  then show ?thesis
    unfolding tq by (auto split: option.splits)
qed

lemma m_format_contains:
  "map toLower t \<in> set formatAlts \<Longrightarrow> m_format (p @ t @ q) \<noteq> None"
proof (induction p)
  case Nil
  then show ?case by (simp add: m_format_here)
next
  case (Cons c p)
  then show ?case by (auto split: option.splits)
qed

text \<open>The two refusals of \<open>determineOutputNameAndFormat\<close>, and when each is reached.\<close>

lemma invalid_output_exactly:
  "(\<exists>f. determineOutputNameAndFormat inp fmt file = Inl f \<and> category_of f = InvalidOutputError)
   \<longleftrightarrow>
   (\<not> truthy fmt \<and> truthy file \<and> m_output (str file) = None) \<or>
   (\<not> (\<not> truthy fmt \<and> truthy file) \<and> (\<exists>s. fmt = Str s \<and> m_format s = None))"
  by (cases fmt; cases inp)
    (auto simp: determineOutputNameAndFormat_def split: option.splits)

subsection \<open>The claims\<close>

text \<open>
  C1. The claim: resolution fails with an invalid-output error exactly when there is no
  format override and the output path's extension is not one of jscad, js, stl, amf, dxf,
  svg, or there is an override that is not one of jscad, js, stl, stla, stlb, amf, dxf,
  svg in any case; so every override outside that set is refused. The code at the
  override \<open>stlx\<close>, which is outside the set: the expression of line 177 finds \<open>stl\<close>
  inside it, nothing is refused, the format stays \<open>stlx\<close> and the output file is named
  with \<open>.stl\<close>.
\<close>

theorem format_outside_token_set_accepted:
  "map toLower ''stlx'' \<notin> set formatAlts \<and>
   determineOutputNameAndFormat (Str ''model.jscad'') (Str ''stlx'') Undefined =
     Inr (Str ''stlx'', Str ''model.stl'')"
  by (simp add: determineOutputNameAndFormat_def formatAlts_def toLower_def replaceExt_def
      uptoLastDot_def afterLastDot_def)

text \<open>
  C2. The claim: when no token sets an input path, parsing fails with a usage error and
  returns no request. The code: line 157 compares \<open>inputFile\<close> with \<open>null\<close>, and a
  variable that was never assigned is \<open>undefined\<close>, so that exit is taken on no argument
  list at all; on \<open>-o out.stl\<close> the function returns a request whose \<open>inputFile\<close> is
  \<open>undefined\<close>.
\<close>

theorem missing_input_not_detected:
  "parseArgs e args \<noteq> Inl NoInput \<and>
   parseArgs e [''-o'', ''out.stl''] = Inr (init\<lparr>outputFile := Str ''out.stl''\<rparr>)"
  by (simp add: parseArgs_never_NoInput)
    (simp add: parseArgs_def loop.simps(2) init_def)

text \<open>
  C3. With the override \<open>stla\<close> or \<open>stlb\<close> and no output path, the output path is the
  input path with its extension replaced by \<open>.stl\<close>, and the format returned is still
  the override, so the two kinds of STL stay apart.
\<close>

theorem stl_variant_kept_in_format:
  assumes "fmt = ''stla'' \<or> fmt = ''stlb''" "\<not> truthy outFile"
    "x \<noteq> []" "CHR ''.'' \<notin> set x"
  shows "determineOutputNameAndFormat (Str (b @ ''.'' @ x)) (Str fmt) outFile =
           Inr (Str fmt, Str (b @ ''.stl''))"
proof -
  have m: "m_format fmt = Some ''stl''"
    using assms(1) by (auto simp: formatAlts_def toLower_def)
  have r: "replaceExt (b @ ''.'' @ x) ''stl'' = b @ ''.stl''"
    using assms(3,4) by (simp add: replaceExt_def uptoLastDot_ext afterLastDot_ext)
  show ?thesis
    using assms(1,2) m r by (auto simp: determineOutputNameAndFormat_def)
qed

theorem stl_variant_kept_in_format_witness:
  "(''stlb'' = ''stla'' \<or> ''stlb'' = ''stlb'') \<and> \<not> truthy Undefined \<and> ''jscad'' \<noteq> [] \<and>
   CHR ''.'' \<notin> set ''jscad'' \<and>
   determineOutputNameAndFormat (Str (''model'' @ ''.'' @ ''jscad'')) (Str ''stlb'') Undefined =
     Inr (Str ''stlb'', Str (''model'' @ ''.stl''))"
  using stl_variant_kept_in_format [of "''stlb''" Undefined "''jscad''" "''model''"] by simp

text \<open>
  C4. For the single argument \<open>model.jscad\<close>, a regular file, parsing fills in the output
  format \<open>stla\<close>, and the output is then \<open>model.stl\<close> in the format \<open>stla\<close>.
\<close>

theorem default_output_for_model_jscad:
  assumes "statSync e ''model.jscad'' = Some True"
  shows "parseArgs e [''model.jscad''] =
           Inr (init\<lparr>inputFile := Str ''model.jscad'', inputFormat := Str ''jscad'',
                     outputFormat := Str ''stla''\<rparr>) \<and>
         cli e [''model.jscad''] =
           Inr (init\<lparr>inputFile := Str ''model.jscad'', inputFormat := Str ''jscad'',
                     outputFormat := Str ''stla'', outputFile := Str ''model.stl''\<rparr>)"
proof -
  have b: "bare ''model.jscad''"
    by (simp add: bare_def m_param_eq_def m_param_def)
  have i: "m_input ''model.jscad'' = Some ''jscad''"
    by (simp add: m_input_def afterLastDot_def lineTerminator_def toLower_def inputExts_def)
  have p: "parseArgs e [''model.jscad''] =
           Inr (init\<lparr>inputFile := Str ''model.jscad'', inputFormat := Str ''jscad'',
                     outputFormat := Str ''stla''\<rparr>)"
    using assms by (simp add: parseArgs_def loop_input [OF b i] init_def)
  have d: "determineOutputNameAndFormat (Str ''model.jscad'') (Str ''stla'') Undefined =
           Inr (Str ''stla'', Str ''model.stl'')"
    by (simp add: determineOutputNameAndFormat_def formatAlts_def toLower_def replaceExt_def
      uptoLastDot_def afterLastDot_def)
  show ?thesis
    using p d by (simp add: cli_def init_def)
qed

theorem default_output_for_model_jscad_witness:
  "statSync everyFile ''model.jscad'' = Some True \<and>
   parseArgs everyFile [''model.jscad''] =
     Inr (init\<lparr>inputFile := Str ''model.jscad'', inputFormat := Str ''jscad'',
               outputFormat := Str ''stla''\<rparr>) \<and>
   cli everyFile [''model.jscad''] =
     Inr (init\<lparr>inputFile := Str ''model.jscad'', inputFormat := Str ''jscad'',
               outputFormat := Str ''stla'', outputFile := Str ''model.stl''\<rparr>)"
  using default_output_for_model_jscad [of everyFile] by (simp add: everyFile_def)

text \<open>
  C5. The claim: a bare token that ends in an input extension in any case sets the input
  path to the token and the input format to the extension in lower case, so that
  \<open>MODEL.STL\<close> gives the format \<open>stl\<close>. The code hands on \<open>RegExp.$1\<close>, the extension
  as written: \<open>MODEL.STL\<close> gives \<open>STL\<close>.
\<close>

theorem input_format_keeps_case_counterexample:
  "parseArgs everyFile [''MODEL.STL''] =
     Inr (init\<lparr>inputFile := Str ''MODEL.STL'', inputFormat := Str ''STL'',
               outputFormat := Str ''stla''\<rparr>) \<and>
   Str ''STL'' \<noteq> Str ''stl''"
proof -
  have b: "bare ''MODEL.STL''"
    by (simp add: bare_def m_param_eq_def m_param_def)
  have i: "m_input ''MODEL.STL'' = Some ''STL''"
    by (simp add: m_input_def afterLastDot_def lineTerminator_def toLower_def inputExts_def)
  show ?thesis
    by (simp add: parseArgs_def loop_input [OF b i] init_def everyFile_def)
qed

text \<open>
  C5, as the code has it: a bare token that ends in a dot and an input extension in any
  case, the dot not being the first character nor following a line break, and that names
  a regular file, sets the input path to the token and the input format to the extension
  as written in the token.
\<close>

theorem input_token_sets_path_and_extension:
  assumes "bare (b @ ''.'' @ x)" "b \<noteq> []" "\<not> lineTerminator (last b)"
    "map toLower x \<in> set inputExts" "statSync e (b @ ''.'' @ x) = Some True"
  shows "loop e ((b @ ''.'' @ x) # rest) st =
           loop e rest (st\<lparr>inputFile := Str (b @ ''.'' @ x), inputFormat := Str x\<rparr>)"
  using assms(1) m_input_ext [OF assms(4,2,3)] assms(5) by (rule loop_input)

theorem input_token_sets_path_and_extension_witness:
  "bare (''MODEL'' @ ''.'' @ ''STL'') \<and> ''MODEL'' \<noteq> [] \<and> \<not> lineTerminator (last ''MODEL'') \<and>
   map toLower ''STL'' \<in> set inputExts \<and>
   statSync everyFile (''MODEL'' @ ''.'' @ ''STL'') = Some True \<and>
   loop everyFile [''MODEL'' @ ''.'' @ ''STL''] init =
     Inr (init\<lparr>inputFile := Str (''MODEL'' @ ''.'' @ ''STL''), inputFormat := Str ''STL''\<rparr>)"
  using input_token_sets_path_and_extension [of "''MODEL''" "''STL''" everyFile "[]" init]
  by (simp add: bare_def m_param_eq_def m_param_def lineTerminator_def toLower_def
      inputExts_def everyFile_def)

text \<open>
  C6. With a format override and an output path both given (non-empty strings), the
  outcome is decided by the override alone: the format returned is the override and the
  path is returned as it came, whatever its extension, or the override is refused. The
  extension of the output path is looked at only without an override.
\<close>

theorem override_decides_format:
  assumes "fmt \<noteq> []" "file \<noteq> []" "\<not> truthy absent"
  shows "determineOutputNameAndFormat inp (Str fmt) (Str file) =
           (case m_format fmt of
              None \<Rightarrow> Inl (InvalidOutputFormat fmt)
            | Some ext \<Rightarrow> Inr (Str fmt, Str file)) \<and>
         determineOutputNameAndFormat inp absent (Str file) =
           (case m_output file of
              None \<Rightarrow> Inl (InvalidOutputFile file)
            | Some x \<Rightarrow> Inr (Str x, Str file))"
  using assms by (simp add: determineOutputNameAndFormat_def split: option.splits)

theorem override_decides_format_witness:
  "''amf'' \<noteq> [] \<and> ''out.stl'' \<noteq> [] \<and> \<not> truthy Undefined \<and>
   determineOutputNameAndFormat (Str ''model.jscad'') (Str ''amf'') (Str ''out.stl'') =
     Inr (Str ''amf'', Str ''out.stl'') \<and>
   determineOutputNameAndFormat (Str ''model.jscad'') Undefined (Str ''out.stl'') =
     Inr (Str ''stl'', Str ''out.stl'')"
  using override_decides_format [of "''amf''" "''out.stl''" Undefined "Str ''model.jscad''"]
  by (simp add: formatAlts_def toLower_def m_output_def uptoLastDot_def afterLastDot_def
      outputExts_def)

text \<open>
  C7. When the loop comes to an input path token that does not name an existing regular
  file, it stops there with a file-not-found failure (the exception of \<open>fs.statSync\<close> for
  a path that does not exist, the refusal of line 144 for one that is not a regular
  file); when the token is the first one, parsing returns that failure and the output is
  never resolved.
\<close>

theorem missing_input_file_is_fatal:
  assumes "bare t" "m_input t = Some x" "statSync e t \<noteq> Some True"
  shows "\<exists>f. loop e (t # rest) st = Inl f \<and> parseArgs e (t # rest) = Inl f \<and>
             cli e (t # rest) = Inl f \<and> category_of f = FileNotFoundError"
proof -
  define f where "f = (if statSync e t = None then Thrown (StatError t) else CannotOpen t)"
  have l: "loop e (t # rest) s = Inl f" for s
    using assms by (auto simp: loop_bare f_def split: option.splits)
  have p: "parseArgs e (t # rest) = Inl f"
    by (simp add: parseArgs_def l)
  have c: "cli e (t # rest) = Inl f"
    by (simp add: cli_def p)
  have "category_of f = FileNotFoundError"
    by (simp add: f_def)
  with l p c show ?thesis by blast
qed

theorem missing_input_file_is_fatal_witness:
  "bare ''gone.stl'' \<and> m_input ''gone.stl'' = Some ''stl'' \<and>
   statSync (everyFile\<lparr>statSync := (\<lambda>p. None)\<rparr>) ''gone.stl'' \<noteq> Some True \<and>
   loop (everyFile\<lparr>statSync := (\<lambda>p. None)\<rparr>) [''gone.stl''] init =
     Inl (Thrown (StatError ''gone.stl'')) \<and>
   cli (everyFile\<lparr>statSync := (\<lambda>p. None)\<rparr>) [''gone.stl''] =
     Inl (Thrown (StatError ''gone.stl''))"
  using missing_input_file_is_fatal [of "''gone.stl''" "''stl''" "everyFile\<lparr>statSync := (\<lambda>p. None)\<rparr>" "[]" init]
  by (simp add: bare_def m_param_eq_def m_param_def m_input_def afterLastDot_def
      lineTerminator_def toLower_def inputExts_def loop_bare parseArgs_def cli_def)

text \<open>
  C8. A token \<open>--name\<close> takes the token after it as its value, whatever that token looks
  like, and the loop goes on after the value; the arguments \<open>--width 5 --depth=3\<close> give
  the parameters width = "5" and depth = "3".
\<close>

theorem named_parameters:
  assumes "n \<noteq> []" "list_all wordChar n"
  shows "loop e ((''--'' @ n) # v # rest) st =
           loop e rest (st\<lparr>gMainParam := setProp (gMainParam st) n (Str v)\<rparr>) \<and>
         parseArgs e [''--width'', ''5'', ''--depth=3''] =
           Inr (init\<lparr>gMainParam := [''width'' \<mapsto> Str ''5'', ''depth'' \<mapsto> Str ''3''],
                     outputFormat := Str ''stla''\<rparr>)"
proof -
  have two: "loop e ((''--'' @ n) # v # rest) st =
           loop e rest (st\<lparr>gMainParam := setProp (gMainParam st) n (Str v)\<rparr>)"
    using param_token [OF assms] by (simp add: loop.simps(2))
  have w: "m_param_eq ''--width'' = None" "m_param ''--width'' = Some ''width''"
    by (simp_all add: m_param_eq_def m_param_def wordChar_def)
  have d: "m_param_eq ''--depth=3'' = Some (''depth'', ''3'')"
    by (simp add: m_param_eq_def wordChar_def lineTerminator_def)
  have "loop e [''--width'', ''5'', ''--depth=3''] init =
          Inr (init\<lparr>gMainParam := [''width'' \<mapsto> Str ''5'', ''depth'' \<mapsto> Str ''3'']\<rparr>)"
    by (simp add: loop.simps(2) w d setProp_def init_def)
  then have "parseArgs e [''--width'', ''5'', ''--depth=3''] =
           Inr (init\<lparr>gMainParam := [''width'' \<mapsto> Str ''5'', ''depth'' \<mapsto> Str ''3''],
                     outputFormat := Str ''stla''\<rparr>)"
    by (simp add: parseArgs_def init_def)
  with two show ?thesis by simp
qed

theorem named_parameters_witness:
  "''name'' \<noteq> [] \<and> list_all wordChar ''name'' \<and>
   loop everyFile [''--'' @ ''name'', ''--other''] init =
     Inr (init\<lparr>gMainParam := [''name'' \<mapsto> Str ''--other'']\<rparr>)"
  using named_parameters [of "''name''" everyFile "''--other''" "[]" init]
  by (simp add: wordChar_def setProp_def init_def)

text \<open>
  C9. The claim: the token \<open>-v\<close> writes the environment and version report, sets no
  field of the request, and parsing goes on with the tokens after it, so that
  \<open>-v model.jscad\<close> still gives a request whose input path is \<open>model.jscad\<close>. The code:
  line 149 calls \<open>openscad.version()\<close>, and the file binds no \<open>openscad\<close> (line 52 binds the
  library to \<open>modelingHelpers\<close>); with the identifier unbound the call throws, the loop
  stops at \<open>-v\<close> whatever follows it, and no request is returned.
\<close>

theorem version_flag_throws:
  assumes "openscad_version e = None"
  shows "loop e (''-v'' # rest) st = Inl (Thrown ReferenceError) \<and>
         parseArgs e (''-v'' # rest) = Inl (Thrown ReferenceError) \<and>
         cli e (''-v'' # rest) = Inl (Thrown ReferenceError)"
proof -
  have bv: "bare ''-v''"
    by (simp add: bare_def m_param_eq_def m_param_def)
  have iv: "m_input ''-v'' = None"
    by (simp add: m_input_def)
  have l: "loop e (''-v'' # rest) s = Inl (Thrown ReferenceError)" for s
    using assms by (simp add: loop_bare [OF bv] iv)
  have p: "parseArgs e (''-v'' # rest) = Inl (Thrown ReferenceError)"
    by (simp add: parseArgs_def l)
  have "cli e (''-v'' # rest) = Inl (Thrown ReferenceError)"
    by (simp add: cli_def p)
  with l p show ?thesis by simp
qed

theorem version_flag_throws_witness:
  "openscad_version (everyFile\<lparr>openscad_version := None\<rparr>) = None \<and>
   loop (everyFile\<lparr>openscad_version := None\<rparr>) [''-v'', ''model.jscad''] init =
     Inl (Thrown ReferenceError) \<and>
   parseArgs (everyFile\<lparr>openscad_version := None\<rparr>) [''-v'', ''model.jscad''] =
     Inl (Thrown ReferenceError) \<and>
   cli (everyFile\<lparr>openscad_version := None\<rparr>) [''-v'', ''model.jscad''] =
     Inl (Thrown ReferenceError)"
  using version_flag_throws [of "everyFile\<lparr>openscad_version := None\<rparr>" "[''model.jscad'']" init]
  by simp

text \<open>
  C10. The claim: an output path whose extension is an output extension written with
  upper-case letters is refused when there is no override, although the same extension in
  the same case is accepted on the input token. For \<open>DXF\<close> the second half fails:
  \<open>OUT.DXF\<close> is refused as an output path, and as an input token it is refused as well,
  \<open>dxf\<close> not being an input extension.
\<close>

theorem dxf_not_an_input_extension_counterexample:
  "map toLower ''DXF'' \<in> set outputExts \<and> ''DXF'' \<notin> set outputExts \<and>
   determineOutputNameAndFormat (Str ''model.jscad'') Undefined (Str ''OUT.DXF'') =
     Inl (InvalidOutputFile ''OUT.DXF'') \<and>
   m_input ''OUT.DXF'' = None \<and>
   parseArgs everyFile [''OUT.DXF''] = Inl (InvalidArgument ''OUT.DXF'')"
proof -
  have b: "bare ''OUT.DXF''"
    by (simp add: bare_def m_param_eq_def m_param_def)
  have i: "m_input ''OUT.DXF'' = None"
    by (simp add: m_input_def afterLastDot_def lineTerminator_def toLower_def inputExts_def)
  have "parseArgs everyFile [''OUT.DXF''] = Inl (InvalidArgument ''OUT.DXF'')"
    by (simp add: parseArgs_def loop_bare [OF b] i)
  moreover have "determineOutputNameAndFormat (Str ''model.jscad'') Undefined (Str ''OUT.DXF'') =
     Inl (InvalidOutputFile ''OUT.DXF'')"
    by (simp add: determineOutputNameAndFormat_def m_output_def afterLastDot_def outputExts_def)
  ultimately show ?thesis
    using i by (simp add: toLower_def outputExts_def)
qed

text \<open>
  C10, as the code has it: an output path whose extension is an output extension with
  some letter in upper case is refused when there is no override; and where that
  extension is an input extension too (jscad, js, stl, amf, svg), a bare token with it
  that names a regular file is accepted as the input, with the extension as written for
  its format.
\<close>

theorem output_extension_case_sensitive:
  assumes "map toLower x \<in> set outputExts" "x \<notin> set outputExts" "\<not> truthy outFormat"
  shows "determineOutputNameAndFormat inp outFormat (Str (b @ ''.'' @ x)) =
           Inl (InvalidOutputFile (b @ ''.'' @ x)) \<and>
         (map toLower x \<in> set inputExts \<and> bare (b @ ''.'' @ x) \<and> b \<noteq> [] \<and>
          \<not> lineTerminator (last b) \<and> statSync e (b @ ''.'' @ x) = Some True \<longrightarrow>
          loop e ((b @ ''.'' @ x) # rest) st =
            loop e rest (st\<lparr>inputFile := Str (b @ ''.'' @ x), inputFormat := Str x\<rparr>))"
proof -
  have nd: "CHR ''.'' \<notin> set x" using assms(1) by (rule outputExts_no_dot)
  have "m_output (b @ ''.'' @ x) = None"
    using assms(2) nd by (simp add: m_output_def afterLastDot_ext)
  then have out: "determineOutputNameAndFormat inp outFormat (Str (b @ ''.'' @ x)) =
           Inl (InvalidOutputFile (b @ ''.'' @ x))"
    using assms(3) by (simp add: determineOutputNameAndFormat_def)
  have "loop e ((b @ ''.'' @ x) # rest) st =
            loop e rest (st\<lparr>inputFile := Str (b @ ''.'' @ x), inputFormat := Str x\<rparr>)"
    if "map toLower x \<in> set inputExts" "bare (b @ ''.'' @ x)" "b \<noteq> []"
      "\<not> lineTerminator (last b)" "statSync e (b @ ''.'' @ x) = Some True"
    using that(2) m_input_ext [OF that(1,3,4)] that(5) by (rule loop_input)
  with out show ?thesis by blast
qed

theorem output_extension_case_sensitive_witness:
  "map toLower ''STL'' \<in> set outputExts \<and> ''STL'' \<notin> set outputExts \<and> \<not> truthy Undefined \<and>
   determineOutputNameAndFormat (Str ''model.jscad'') Undefined (Str (''OUT'' @ ''.'' @ ''STL'')) =
     Inl (InvalidOutputFile (''OUT'' @ ''.'' @ ''STL'')) \<and>
   map toLower ''STL'' \<in> set inputExts \<and> bare (''OUT'' @ ''.'' @ ''STL'') \<and> ''OUT'' \<noteq> [] \<and>
   \<not> lineTerminator (last ''OUT'') \<and> statSync everyFile (''OUT'' @ ''.'' @ ''STL'') = Some True \<and>
   loop everyFile [''OUT'' @ ''.'' @ ''STL''] init =
     Inr (init\<lparr>inputFile := Str (''OUT'' @ ''.'' @ ''STL''), inputFormat := Str ''STL''\<rparr>)"
  using output_extension_case_sensitive [of "''STL''" Undefined "Str ''model.jscad''" "''OUT''" everyFile "[]" init]
  by (simp add: toLower_def outputExts_def inputExts_def bare_def m_param_eq_def m_param_def
      lineTerminator_def everyFile_def)

end
